theory Spec2Isabelle
  imports Complex_Main "HOL-Library.Sublist"
begin

section \<open>The DHCP collector of internal/collector/dhcp/dhcp.go\<close>

text \<open>
  The collector copies 25 performance counters of the ``DHCP Server'' object into
  unlabeled Prometheus samples. It has two acquisition paths: \<open>collect\<close> decodes a
  perflib snapshot into \<open>dhcpPerf\<close> records, \<open>collectPDH\<close> queries a handle created at
  Build time. The embedding below follows the Go source statement by statement.

  Counter values are \<open>float64\<close> in the source. The collector only copies them from the
  telemetry source into the sample and never computes with them, so the model carries them
  as reals; the zero value of a missing map entry is \<open>0\<close>.
\<close>

type_synonym float64 = real

subsection \<open>Errors and outcomes\<close>

text \<open>
  A Go \<open>error\<close> is either made by \<open>errors.New\<close> or wraps another error with
  \<open>fmt.Errorf("...: %w", err)\<close>, kept as the format up to the verb and the wrapped
  error. \<open>Error\<close> is its message.
\<close>

datatype error = errors_New string | fmt_Errorf string error

fun Error :: "error \<Rightarrow> string" where
  "Error (errors_New s) = s"
| "Error (fmt_Errorf format e) = format @ Error e"

text \<open>
  A method of the collector either returns its \<open>error\<close> result (\<open>None\<close> is Go's
  \<open>nil\<close>) or panics: an index out of range, or a call through a nil pointer or a nil
  interface.
\<close>

datatype outcome = Returned "error option" | Panicked

subsection \<open>Prometheus descriptors and samples\<close>

datatype ValueType = CounterValue | GaugeValue

record Desc =
  fqName :: string
  helpText :: string
  variableLabels :: "string list"
  constLabels :: "(string \<times> string) list"

record Metric =
  desc :: Desc
  valueType :: ValueType
  val :: float64

text \<open>\<open>prometheus.BuildFQName\<close> joins the non-empty parts with an underscore.\<close>

definition BuildFQName :: "string \<Rightarrow> string \<Rightarrow> string \<Rightarrow> string" where
  "BuildFQName namespace subsystem name =
     (if name = [] then []
      else if namespace \<noteq> [] \<and> subsystem \<noteq> [] then namespace @ ''_'' @ subsystem @ ''_'' @ name
      else if namespace \<noteq> [] then namespace @ ''_'' @ name
      else if subsystem \<noteq> [] then subsystem @ ''_'' @ name
      else name)"

definition NewDesc :: "string \<Rightarrow> string \<Rightarrow> string list \<Rightarrow> (string \<times> string) list \<Rightarrow> Desc" where
  "NewDesc fq h vl cl = \<lparr>fqName = fq, helpText = h, variableLabels = vl, constLabels = cl\<rparr>"

text \<open>
  \<open>prometheus.MustNewConstMetric\<close> reads through the descriptor pointer; a nil
  descriptor (a collector that was never built) makes it panic, which is \<open>None\<close> here.
  The descriptors of this collector have no labels, and the library's check of the metric
  name is not modelled: the names \<open>Build\<close> makes are taken to be valid.
\<close>

definition MustNewConstMetric :: "Desc option \<Rightarrow> ValueType \<Rightarrow> float64 \<Rightarrow> Metric option" where
  "MustNewConstMetric d t v =
     (case d of None \<Rightarrow> None
      | Some d' \<Rightarrow> Some \<lparr>desc = d', valueType = t, val = v\<rparr>)"

text \<open>
  The channel is the list of samples sent so far. \<open>sends\<close> runs a sequence of
  \<open>ch <- prometheus.MustNewConstMetric(...)\<close> statements in order, followed by
  \<open>return nil\<close>: a panic stops the sequence and leaves what was sent before it.
\<close>

fun sends :: "Metric option list \<Rightarrow> Metric list \<Rightarrow> outcome \<times> Metric list" where
  "sends [] ch = (Returned None, ch)"
| "sends (None # ms) ch = (Panicked, ch)"
| "sends (Some m # ms) ch = sends ms (ch @ [m])"

subsection \<open>Data of the telemetry source\<close>

text \<open>
  Modelled from the spec: the record type \<open>dhcpPerf\<close> is declared outside dhcp.go. Its
  fields are the ones \<open>collect\<close> reads, in the order it reads them, each a \<open>float64\<close>.
\<close>

record dhcpPerf =
  PacketsReceivedTotal :: float64
  DuplicatesDroppedTotal :: float64
  PacketsExpiredTotal :: float64
  ActiveQueueLength :: float64
  ConflictCheckQueueLength :: float64
  DiscoversTotal :: float64
  OffersTotal :: float64
  RequestsTotal :: float64
  InformsTotal :: float64
  AcksTotal :: float64
  NacksTotal :: float64
  DeclinesTotal :: float64
  ReleasesTotal :: float64
  OfferQueueLength :: float64
  DeniedDueToMatch :: float64
  DeniedDueToNonMatch :: float64
  FailoverBndUpdSentTotal :: float64
  FailoverBndUpdReceivedTotal :: float64
  FailoverBndAckSentTotal :: float64
  FailoverBndAckReceivedTotal :: float64
  FailoverBndUpdPendingOutboundQueue :: float64
  FailoverTransitionsCommunicationInterruptedState :: float64
  FailoverTransitionsPartnerDownState :: float64
  FailoverTransitionsRecoverState :: float64
  FailoverBndUpdDropped :: float64

text \<open>
  Modelled from the spec: \<open>perftypes.CounterValues\<close>, the value tuple of one counter
  (first value, second value), is declared outside dhcp.go. Only \<open>FirstValue\<close> is read.
\<close>

record CounterValues =
  FirstValue :: float64
  SecondValue :: float64

text \<open>Indexing a Go map at a missing key gives the zero value of the element type.\<close>

definition index :: "(string \<rightharpoonup> CounterValues) \<Rightarrow> string \<Rightarrow> CounterValues" where
  "index data k =
     (case data k of None \<Rightarrow> \<lparr>FirstValue = 0, SecondValue = 0\<rparr> | Some v \<Rightarrow> v)"

type_synonym PerfData = "string \<rightharpoonup> (string \<rightharpoonup> CounterValues)"

text \<open>
  The counter identifiers are package constants declared outside dhcp.go; their values are
  parameters of the model. The field \<open>x_id\<close> stands for the Go constant \<open>x\<close>.
\<close>

record CounterIds =
  acksTotal_id :: string
  activeQueueLength_id :: string
  conflictCheckQueueLength_id :: string
  declinesTotal_id :: string
  deniedDueToMatch_id :: string
  deniedDueToNonMatch_id :: string
  discoversTotal_id :: string
  duplicatesDroppedTotal_id :: string
  failoverBndAckReceivedTotal_id :: string
  failoverBndAckSentTotal_id :: string
  failoverBndUpdDropped_id :: string
  failoverBndUpdPendingOutboundQueue_id :: string
  failoverBndUpdReceivedTotal_id :: string
  failoverBndUpdSentTotal_id :: string
  failoverTransitionsCommunicationInterruptedState_id :: string
  failoverTransitionsPartnerDownState_id :: string
  failoverTransitionsRecoverState_id :: string
  informsTotal_id :: string
  nacksTotal_id :: string
  offerQueueLength_id :: string
  offersTotal_id :: string
  packetsExpiredTotal_id :: string
  packetsReceivedTotal_id :: string
  releasesTotal_id :: string
  requestsTotal_id :: string

text \<open>
  Everything dhcp.go reads from other packages, as it stands at the time of a call:
  the constants \<open>types.Namespace\<close> and \<open>perftypes.EmptyInstance\<close>, the counter
  identifiers, the value \<open>utils.PDHEnabled()\<close> returns, and the three calls into the
  telemetry source. \<open>NewCollector\<close> stands for
  \<open>perfdata.NewCollector(perfdata.V1, object, perfdata.AllInstances, counters)\<close> and gets the
  object name and the counters, and a failed call is taken to return a nil handle with its
  error; \<open>perfCollect\<close> is the handle's \<open>Collect()\<close>;
  \<open>UnmarshalObject\<close> stands for \<open>v1.UnmarshalObject(obj, &dhcpPerfs, logger)\<close> and
  returns its error or the records it left in \<open>dhcpPerfs\<close>. \<open>'obj\<close> is the type of a
  perflib object, \<open>'h\<close> the type of a query handle.
\<close>

record ('obj, 'h) env =
  Namespace :: string
  EmptyInstance :: string
  ids :: CounterIds
  PDHEnabled :: bool
  NewCollector :: "string \<Rightarrow> string list \<Rightarrow> error + 'h"
  perfCollect :: "'h \<Rightarrow> error + PerfData"
  UnmarshalObject :: "'obj option \<Rightarrow> error + dhcpPerf list"

record 'obj ScrapeContext =
  PerfObjects :: "string \<rightharpoonup> 'obj"

subsection \<open>The collector\<close>

definition Name :: string where
  "Name = ''dhcp''"

type_synonym Config = unit

definition ConfigDefaults :: Config where
  "ConfigDefaults = ()"

text \<open>The descriptor fields are pointers and the handle is an interface: \<open>None\<close> is nil.\<close>

record 'h Collector =
  config :: Config
  perfDataCollector :: "'h option"
  acksTotal :: "Desc option"
  activeQueueLength :: "Desc option"
  conflictCheckQueueLength :: "Desc option"
  declinesTotal :: "Desc option"
  deniedDueToMatch :: "Desc option"
  deniedDueToNonMatch :: "Desc option"
  discoversTotal :: "Desc option"
  duplicatesDroppedTotal :: "Desc option"
  failoverBndAckReceivedTotal :: "Desc option"
  failoverBndAckSentTotal :: "Desc option"
  failoverBndUpdDropped :: "Desc option"
  failoverBndUpdPendingOutboundQueue :: "Desc option"
  failoverBndUpdReceivedTotal :: "Desc option"
  failoverBndUpdSentTotal :: "Desc option"
  failoverTransitionsCommunicationInterruptedState :: "Desc option"
  failoverTransitionsPartnerDownState :: "Desc option"
  failoverTransitionsRecoverState :: "Desc option"
  informsTotal :: "Desc option"
  nACKsTotal :: "Desc option"
  offerQueueLength :: "Desc option"
  offersTotal :: "Desc option"
  packetsExpiredTotal :: "Desc option"
  packetsReceivedTotal :: "Desc option"
  releasesTotal :: "Desc option"
  requestsTotal :: "Desc option"

definition New :: "Config option \<Rightarrow> 'h Collector" where
  "New cfg =
     \<lparr>config = (case cfg of None \<Rightarrow> ConfigDefaults | Some c \<Rightarrow> c),
      perfDataCollector = None,
      acksTotal = None, activeQueueLength = None, conflictCheckQueueLength = None,
      declinesTotal = None, deniedDueToMatch = None, deniedDueToNonMatch = None,
      discoversTotal = None, duplicatesDroppedTotal = None,
      failoverBndAckReceivedTotal = None, failoverBndAckSentTotal = None,
      failoverBndUpdDropped = None, failoverBndUpdPendingOutboundQueue = None,
      failoverBndUpdReceivedTotal = None, failoverBndUpdSentTotal = None,
      failoverTransitionsCommunicationInterruptedState = None,
      failoverTransitionsPartnerDownState = None, failoverTransitionsRecoverState = None,
      informsTotal = None, nACKsTotal = None, offerQueueLength = None, offersTotal = None,
      packetsExpiredTotal = None, packetsReceivedTotal = None, releasesTotal = None,
      requestsTotal = None\<rparr>"

definition GetName :: "'h Collector \<Rightarrow> string" where
  "GetName c = Name"

definition GetPerfCounter :: "('obj, 'h) env \<Rightarrow> 'h Collector \<Rightarrow> string list \<times> error option" where
  "GetPerfCounter env c = (if PDHEnabled env then ([], None) else ([''DHCP Server''], None))"

text \<open>\<open>Close\<close> has a pointer receiver: it returns the collector as it leaves it, and its error.\<close>

definition Close :: "'h Collector \<Rightarrow> 'h Collector \<times> error option" where
  "Close c = (c, None)"

text \<open>
  \<open>Build\<close> mutates the collector through its pointer receiver; the result is the
  collector as \<open>Build\<close> leaves it, and its error. Its body has two parts. The first
  (\<open>if utils.PDHEnabled() { ... }\<close>) creates the query handle when PDH is enabled and
  fails when the handle cannot be created; \<open>counters\<close> is its local list.
\<close>

definition counters :: "CounterIds \<Rightarrow> string list" where
  "counters i =
     [acksTotal_id i,
      activeQueueLength_id i,
      conflictCheckQueueLength_id i,
      declinesTotal_id i,
      deniedDueToMatch_id i,
      deniedDueToNonMatch_id i,
      discoversTotal_id i,
      duplicatesDroppedTotal_id i,
      failoverBndAckReceivedTotal_id i,
      failoverBndAckSentTotal_id i,
      failoverBndUpdDropped_id i,
      failoverBndUpdPendingOutboundQueue_id i,
      failoverBndUpdReceivedTotal_id i,
      failoverBndUpdSentTotal_id i,
      failoverTransitionsCommunicationInterruptedState_id i,
      failoverTransitionsPartnerDownState_id i,
      failoverTransitionsRecoverState_id i,
      informsTotal_id i,
      nacksTotal_id i,
      offerQueueLength_id i,
      offersTotal_id i,
      packetsExpiredTotal_id i,
      packetsReceivedTotal_id i,
      releasesTotal_id i,
      requestsTotal_id i]"

definition newPerfDataCollector :: "('obj, 'h) env \<Rightarrow> 'h Collector \<Rightarrow> 'h Collector \<times> error option" where
  "newPerfDataCollector env c =
     (if PDHEnabled env then
        (case NewCollector env ''DHCP Server'' (counters (ids env)) of
           Inl err \<Rightarrow>
             (c\<lparr>perfDataCollector := None\<rparr>,
              Some (fmt_Errorf ''failed to create DHCP Server collector: '' err))
         | Inr h \<Rightarrow> (c\<lparr>perfDataCollector := Some h\<rparr>, None))
      else (c, None))"

text \<open>The second part assigns the 25 descriptors and cannot fail.\<close>

definition newDescs :: "string \<Rightarrow> 'h Collector \<Rightarrow> 'h Collector" where
  "newDescs namespace c =
     c\<lparr>packetsReceivedTotal := Some (NewDesc
       (BuildFQName namespace Name ''packets_received_total'')
       ''Total number of packets received by the DHCP server (PacketsReceivedTotal)''
       [] []),
     duplicatesDroppedTotal := Some (NewDesc
       (BuildFQName namespace Name ''duplicates_dropped_total'')
       ''Total number of duplicate packets received by the DHCP server (DuplicatesDroppedTotal)''
       [] []),
     packetsExpiredTotal := Some (NewDesc
       (BuildFQName namespace Name ''packets_expired_total'')
       ''Total number of packets expired in the DHCP server message queue (PacketsExpiredTotal)''
       [] []),
     activeQueueLength := Some (NewDesc
       (BuildFQName namespace Name ''active_queue_length'')
       ''Number of packets in the processing queue of the DHCP server (ActiveQueueLength)''
       [] []),
     conflictCheckQueueLength := Some (NewDesc
       (BuildFQName namespace Name ''conflict_check_queue_length'')
       ''Number of packets in the DHCP server queue waiting on conflict detection (ping). (ConflictCheckQueueLength)''
       [] []),
     discoversTotal := Some (NewDesc
       (BuildFQName namespace Name ''discovers_total'')
       ''Total DHCP Discovers received by the DHCP server (DiscoversTotal)''
       [] []),
     offersTotal := Some (NewDesc
       (BuildFQName namespace Name ''offers_total'')
       ''Total DHCP Offers sent by the DHCP server (OffersTotal)''
       [] []),
     requestsTotal := Some (NewDesc
       (BuildFQName namespace Name ''requests_total'')
       ''Total DHCP Requests received by the DHCP server (RequestsTotal)''
       [] []),
     informsTotal := Some (NewDesc
       (BuildFQName namespace Name ''informs_total'')
       ''Total DHCP Informs received by the DHCP server (InformsTotal)''
       [] []),
     acksTotal := Some (NewDesc
       (BuildFQName namespace Name ''acks_total'')
       ''Total DHCP Acks sent by the DHCP server (AcksTotal)''
       [] []),
     nACKsTotal := Some (NewDesc
       (BuildFQName namespace Name ''nacks_total'')
       ''Total DHCP Nacks sent by the DHCP server (NacksTotal)''
       [] []),
     declinesTotal := Some (NewDesc
       (BuildFQName namespace Name ''declines_total'')
       ''Total DHCP Declines received by the DHCP server (DeclinesTotal)''
       [] []),
     releasesTotal := Some (NewDesc
       (BuildFQName namespace Name ''releases_total'')
       ''Total DHCP Releases received by the DHCP server (ReleasesTotal)''
       [] []),
     offerQueueLength := Some (NewDesc
       (BuildFQName namespace Name ''offer_queue_length'')
       ''Number of packets in the offer queue of the DHCP server (OfferQueueLength)''
       [] []),
     deniedDueToMatch := Some (NewDesc
       (BuildFQName namespace Name ''denied_due_to_match_total'')
       ''Total number of DHCP requests denied, based on matches from the Deny list (DeniedDueToMatch)''
       [] []),
     deniedDueToNonMatch := Some (NewDesc
       (BuildFQName namespace Name ''denied_due_to_nonmatch_total'')
       ''Total number of DHCP requests denied, based on non-matches from the Allow list (DeniedDueToNonMatch)''
       [] []),
     failoverBndUpdSentTotal := Some (NewDesc
       (BuildFQName namespace Name ''failover_bndupd_sent_total'')
       ''Number of DHCP fail over Binding Update messages sent (FailoverBndupdSentTotal)''
       [] []),
     failoverBndUpdReceivedTotal := Some (NewDesc
       (BuildFQName namespace Name ''failover_bndupd_received_total'')
       ''Number of DHCP fail over Binding Update messages received (FailoverBndupdReceivedTotal)''
       [] []),
     failoverBndAckSentTotal := Some (NewDesc
       (BuildFQName namespace Name ''failover_bndack_sent_total'')
       ''Number of DHCP fail over Binding Ack messages sent (FailoverBndackSentTotal)''
       [] []),
     failoverBndAckReceivedTotal := Some (NewDesc
       (BuildFQName namespace Name ''failover_bndack_received_total'')
       ''Number of DHCP fail over Binding Ack messages received (FailoverBndackReceivedTotal)''
       [] []),
     failoverBndUpdPendingOutboundQueue := Some (NewDesc
       (BuildFQName namespace Name ''failover_bndupd_pending_in_outbound_queue'')
       ''Number of pending outbound DHCP fail over Binding Update messages (FailoverBndupdPendingOutboundQueue)''
       [] []),
     failoverTransitionsCommunicationInterruptedState := Some (NewDesc
       (BuildFQName namespace Name ''failover_transitions_communicationinterrupted_state_total'')
       ''Total number of transitions into COMMUNICATION INTERRUPTED state (FailoverTransitionsCommunicationinterruptedState)''
       [] []),
     failoverTransitionsPartnerDownState := Some (NewDesc
       (BuildFQName namespace Name ''failover_transitions_partnerdown_state_total'')
       ''Total number of transitions into PARTNER DOWN state (FailoverTransitionsPartnerdownState)''
       [] []),
     failoverTransitionsRecoverState := Some (NewDesc
       (BuildFQName namespace Name ''failover_transitions_recover_total'')
       ''Total number of transitions into RECOVER state (FailoverTransitionsRecoverState)''
       [] []),
     failoverBndUpdDropped := Some (NewDesc
       (BuildFQName namespace Name ''failover_bndupd_dropped_total'')
       ''Total number of DHCP fail over Binding Updates dropped (FailoverBndupdDropped)''
       [] [])\<rparr>"

definition Build :: "('obj, 'h) env \<Rightarrow> 'h Collector \<Rightarrow> 'h Collector \<times> error option" where
  "Build env c =
     (case newPerfDataCollector env c of
        (c, Some err) \<Rightarrow> (c, Some err)
      | (c, None) \<Rightarrow> (newDescs (Namespace env) c, None))"

text \<open>
  The legacy path. \<open>dhcpPerfs[0]\<close> is evaluated by the first statement after the
  decode: on an empty slice it panics with index out of range before anything is sent.
\<close>

definition collect ::
  "('obj, 'h) env \<Rightarrow> 'h Collector \<Rightarrow> 'obj ScrapeContext \<Rightarrow> Metric list \<Rightarrow> outcome \<times> Metric list" where
  "collect env c ctx ch =
    (case UnmarshalObject env (PerfObjects ctx ''DHCP Server'') of
       Inl err \<Rightarrow> (Returned (Some err), ch)
     | Inr dhcpPerfs \<Rightarrow>
        (case dhcpPerfs of
           [] \<Rightarrow> (Panicked, ch)
         | p # _ \<Rightarrow>
            sends
             [MustNewConstMetric (packetsReceivedTotal c) CounterValue (PacketsReceivedTotal p),
              MustNewConstMetric (duplicatesDroppedTotal c) CounterValue (DuplicatesDroppedTotal p),
              MustNewConstMetric (packetsExpiredTotal c) CounterValue (PacketsExpiredTotal p),
              MustNewConstMetric (activeQueueLength c) GaugeValue (ActiveQueueLength p),
              MustNewConstMetric (conflictCheckQueueLength c) GaugeValue (ConflictCheckQueueLength p),
              MustNewConstMetric (discoversTotal c) CounterValue (DiscoversTotal p),
              MustNewConstMetric (offersTotal c) CounterValue (OffersTotal p),
              MustNewConstMetric (requestsTotal c) CounterValue (RequestsTotal p),
              MustNewConstMetric (informsTotal c) CounterValue (InformsTotal p),
              MustNewConstMetric (acksTotal c) CounterValue (AcksTotal p),
              MustNewConstMetric (nACKsTotal c) CounterValue (NacksTotal p),
              MustNewConstMetric (declinesTotal c) CounterValue (DeclinesTotal p),
              MustNewConstMetric (releasesTotal c) CounterValue (ReleasesTotal p),
              MustNewConstMetric (offerQueueLength c) GaugeValue (OfferQueueLength p),
              MustNewConstMetric (deniedDueToMatch c) CounterValue (DeniedDueToMatch p),
              MustNewConstMetric (deniedDueToNonMatch c) CounterValue (DeniedDueToNonMatch p),
              MustNewConstMetric (failoverBndUpdSentTotal c) CounterValue (FailoverBndUpdSentTotal p),
              MustNewConstMetric (failoverBndUpdReceivedTotal c) CounterValue (FailoverBndUpdReceivedTotal p),
              MustNewConstMetric (failoverBndAckSentTotal c) CounterValue (FailoverBndAckSentTotal p),
              MustNewConstMetric (failoverBndAckReceivedTotal c) CounterValue (FailoverBndAckReceivedTotal p),
              MustNewConstMetric (failoverBndUpdPendingOutboundQueue c) GaugeValue
                (FailoverBndUpdPendingOutboundQueue p),
              MustNewConstMetric (failoverTransitionsCommunicationInterruptedState c) CounterValue
                (FailoverTransitionsCommunicationInterruptedState p),
              MustNewConstMetric (failoverTransitionsPartnerDownState c) CounterValue
                (FailoverTransitionsPartnerDownState p),
              MustNewConstMetric (failoverTransitionsRecoverState c) CounterValue
                (FailoverTransitionsRecoverState p),
              MustNewConstMetric (failoverBndUpdDropped c) CounterValue (FailoverBndUpdDropped p)]
             ch))"

text \<open>
  The PDH path. Calling \<open>Collect()\<close> on a nil handle panics; a failed \<open>Collect()\<close>
  is wrapped and returned; a result without the empty instance is an error of its own.
\<close>

definition collectPDH ::
  "('obj, 'h) env \<Rightarrow> 'h Collector \<Rightarrow> Metric list \<Rightarrow> outcome \<times> Metric list" where
  "collectPDH env c ch =
    (case perfDataCollector c of
       None \<Rightarrow> (Panicked, ch)
     | Some h \<Rightarrow>
        (case perfCollect env h of
           Inl err \<Rightarrow>
             (Returned (Some (fmt_Errorf ''failed to collect DHCP Server metrics: '' err)), ch)
         | Inr perfData \<Rightarrow>
            (case perfData (EmptyInstance env) of
               None \<Rightarrow>
                 (Returned (Some (errors_New
                    ''perflib query for DHCP Server returned empty result set'')), ch)
             | Some data \<Rightarrow>
                sends
                 [MustNewConstMetric (packetsReceivedTotal c) CounterValue
                    (FirstValue (index data (packetsReceivedTotal_id (ids env)))),
                  MustNewConstMetric (duplicatesDroppedTotal c) CounterValue
                    (FirstValue (index data (duplicatesDroppedTotal_id (ids env)))),
                  MustNewConstMetric (packetsExpiredTotal c) CounterValue
                    (FirstValue (index data (packetsExpiredTotal_id (ids env)))),
                  MustNewConstMetric (activeQueueLength c) GaugeValue
                    (FirstValue (index data (activeQueueLength_id (ids env)))),
                  MustNewConstMetric (conflictCheckQueueLength c) GaugeValue
                    (FirstValue (index data (conflictCheckQueueLength_id (ids env)))),
                  MustNewConstMetric (discoversTotal c) CounterValue
                    (FirstValue (index data (discoversTotal_id (ids env)))),
                  MustNewConstMetric (offersTotal c) CounterValue
                    (FirstValue (index data (offersTotal_id (ids env)))),
                  MustNewConstMetric (requestsTotal c) CounterValue
                    (FirstValue (index data (requestsTotal_id (ids env)))),
                  MustNewConstMetric (informsTotal c) CounterValue
                    (FirstValue (index data (informsTotal_id (ids env)))),
                  MustNewConstMetric (acksTotal c) CounterValue
                    (FirstValue (index data (acksTotal_id (ids env)))),
                  MustNewConstMetric (nACKsTotal c) CounterValue
                    (FirstValue (index data (nacksTotal_id (ids env)))),
                  MustNewConstMetric (declinesTotal c) CounterValue
                    (FirstValue (index data (declinesTotal_id (ids env)))),
                  MustNewConstMetric (releasesTotal c) CounterValue
                    (FirstValue (index data (releasesTotal_id (ids env)))),
                  MustNewConstMetric (offerQueueLength c) GaugeValue
                    (FirstValue (index data (offerQueueLength_id (ids env)))),
                  MustNewConstMetric (deniedDueToMatch c) CounterValue
                    (FirstValue (index data (deniedDueToMatch_id (ids env)))),
                  MustNewConstMetric (deniedDueToNonMatch c) CounterValue
                    (FirstValue (index data (deniedDueToNonMatch_id (ids env)))),
                  MustNewConstMetric (failoverBndUpdSentTotal c) CounterValue
                    (FirstValue (index data (failoverBndUpdSentTotal_id (ids env)))),
                  MustNewConstMetric (failoverBndUpdReceivedTotal c) CounterValue
                    (FirstValue (index data (failoverBndUpdReceivedTotal_id (ids env)))),
                  MustNewConstMetric (failoverBndAckSentTotal c) CounterValue
                    (FirstValue (index data (failoverBndAckSentTotal_id (ids env)))),
                  MustNewConstMetric (failoverBndAckReceivedTotal c) CounterValue
                    (FirstValue (index data (failoverBndAckReceivedTotal_id (ids env)))),
                  MustNewConstMetric (failoverBndUpdPendingOutboundQueue c) GaugeValue
                    (FirstValue (index data (failoverBndUpdPendingOutboundQueue_id (ids env)))),
                  MustNewConstMetric (failoverTransitionsCommunicationInterruptedState c) CounterValue
                    (FirstValue (index data
                       (failoverTransitionsCommunicationInterruptedState_id (ids env)))),
                  MustNewConstMetric (failoverTransitionsPartnerDownState c) CounterValue
                    (FirstValue (index data (failoverTransitionsPartnerDownState_id (ids env)))),
                  MustNewConstMetric (failoverTransitionsRecoverState c) CounterValue
                    (FirstValue (index data (failoverTransitionsRecoverState_id (ids env)))),
                  MustNewConstMetric (failoverBndUpdDropped c) CounterValue
                    (FirstValue (index data (failoverBndUpdDropped_id (ids env))))]
                 ch)))"

text \<open>
  The method \<open>Collect\<close> (named \<open>Collect_metrics\<close> here, \<open>Collect\<close> being the set
  comprehension of HOL) asks \<open>utils.PDHEnabled()\<close> on every call and runs the path
  it names.
\<close>

definition Collect_metrics ::
  "('obj, 'h) env \<Rightarrow> 'h Collector \<Rightarrow> 'obj ScrapeContext \<Rightarrow> Metric list \<Rightarrow> outcome \<times> Metric list" where
  "Collect_metrics env c ctx ch = (if PDHEnabled env then collectPDH env c ch else collect env c ctx ch)"

subsection \<open>The catalog, read off the two collection paths\<close>

text \<open>
  Both paths send through the same descriptor fields with the same value types, in the same
  order. \<open>descriptors\<close> lists the fields and \<open>kinds\<close> the value types in that order;
  \<open>legacyValues\<close> lists the record fields \<open>collect\<close> reads and \<open>pdhKeys\<close> the
  counter identifiers \<open>collectPDH\<close> looks up, position by position.
\<close>

definition descriptors :: "'h Collector \<Rightarrow> Desc option list" where
  "descriptors c =
     [packetsReceivedTotal c,
      duplicatesDroppedTotal c,
      packetsExpiredTotal c,
      activeQueueLength c,
      conflictCheckQueueLength c,
      discoversTotal c,
      offersTotal c,
      requestsTotal c,
      informsTotal c,
      acksTotal c,
      nACKsTotal c,
      declinesTotal c,
      releasesTotal c,
      offerQueueLength c,
      deniedDueToMatch c,
      deniedDueToNonMatch c,
      failoverBndUpdSentTotal c,
      failoverBndUpdReceivedTotal c,
      failoverBndAckSentTotal c,
      failoverBndAckReceivedTotal c,
      failoverBndUpdPendingOutboundQueue c,
      failoverTransitionsCommunicationInterruptedState c,
      failoverTransitionsPartnerDownState c,
      failoverTransitionsRecoverState c,
      failoverBndUpdDropped c]"

definition kinds :: "ValueType list" where
  "kinds =
     [CounterValue,
      CounterValue,
      CounterValue,
      GaugeValue,
      GaugeValue,
      CounterValue,
      CounterValue,
      CounterValue,
      CounterValue,
      CounterValue,
      CounterValue,
      CounterValue,
      CounterValue,
      GaugeValue,
      CounterValue,
      CounterValue,
      CounterValue,
      CounterValue,
      CounterValue,
      CounterValue,
      GaugeValue,
      CounterValue,
      CounterValue,
      CounterValue,
      CounterValue]"

definition legacyValues :: "dhcpPerf \<Rightarrow> float64 list" where
  "legacyValues p =
     [PacketsReceivedTotal p,
      DuplicatesDroppedTotal p,
      PacketsExpiredTotal p,
      ActiveQueueLength p,
      ConflictCheckQueueLength p,
      DiscoversTotal p,
      OffersTotal p,
      RequestsTotal p,
      InformsTotal p,
      AcksTotal p,
      NacksTotal p,
      DeclinesTotal p,
      ReleasesTotal p,
      OfferQueueLength p,
      DeniedDueToMatch p,
      DeniedDueToNonMatch p,
      FailoverBndUpdSentTotal p,
      FailoverBndUpdReceivedTotal p,
      FailoverBndAckSentTotal p,
      FailoverBndAckReceivedTotal p,
      FailoverBndUpdPendingOutboundQueue p,
      FailoverTransitionsCommunicationInterruptedState p,
      FailoverTransitionsPartnerDownState p,
      FailoverTransitionsRecoverState p,
      FailoverBndUpdDropped p]"

definition pdhKeys :: "CounterIds \<Rightarrow> string list" where
  "pdhKeys i =
     [packetsReceivedTotal_id i,
      duplicatesDroppedTotal_id i,
      packetsExpiredTotal_id i,
      activeQueueLength_id i,
      conflictCheckQueueLength_id i,
      discoversTotal_id i,
      offersTotal_id i,
      requestsTotal_id i,
      informsTotal_id i,
      acksTotal_id i,
      nacksTotal_id i,
      declinesTotal_id i,
      releasesTotal_id i,
      offerQueueLength_id i,
      deniedDueToMatch_id i,
      deniedDueToNonMatch_id i,
      failoverBndUpdSentTotal_id i,
      failoverBndUpdReceivedTotal_id i,
      failoverBndAckSentTotal_id i,
      failoverBndAckReceivedTotal_id i,
      failoverBndUpdPendingOutboundQueue_id i,
      failoverTransitionsCommunicationInterruptedState_id i,
      failoverTransitionsPartnerDownState_id i,
      failoverTransitionsRecoverState_id i,
      failoverBndUpdDropped_id i]"

definition pdhValues :: "CounterIds \<Rightarrow> (string \<rightharpoonup> CounterValues) \<Rightarrow> float64 list" where
  "pdhValues i data = map (\<lambda>k. FirstValue (index data k)) (pdhKeys i)"

definition catalog :: "'h Collector \<Rightarrow> (Desc option \<times> ValueType) list" where
  "catalog c = zip (descriptors c) kinds"

definition samples :: "(Desc option \<times> ValueType) list \<Rightarrow> float64 list \<Rightarrow> Metric option list" where
  "samples cat vs = map (\<lambda>((d, t), v). MustNewConstMetric d t v) (zip cat vs)"

text \<open>
  The instance data of the PDH path and a record of the legacy path encode the same
  counter values when each counter identifier carries, as its first value, the value of
  the record field that is sent through the same descriptor.
\<close>

definition encodes :: "CounterIds \<Rightarrow> (string \<rightharpoonup> CounterValues) \<Rightarrow> dhcpPerf \<Rightarrow> bool" where
  "encodes i data p = (pdhValues i data = legacyValues p)"

text \<open>
  The metric name and the help text \<open>Build\<close> gives to each descriptor, in the order of
  \<open>descriptors\<close>.
\<close>

definition metricTable :: "(string \<times> string) list" where
  "metricTable =
     [(''packets_received_total'',
       ''Total number of packets received by the DHCP server (PacketsReceivedTotal)''),
      (''duplicates_dropped_total'',
       ''Total number of duplicate packets received by the DHCP server (DuplicatesDroppedTotal)''),
      (''packets_expired_total'',
       ''Total number of packets expired in the DHCP server message queue (PacketsExpiredTotal)''),
      (''active_queue_length'',
       ''Number of packets in the processing queue of the DHCP server (ActiveQueueLength)''),
      (''conflict_check_queue_length'',
       ''Number of packets in the DHCP server queue waiting on conflict detection (ping). (ConflictCheckQueueLength)''),
      (''discovers_total'',
       ''Total DHCP Discovers received by the DHCP server (DiscoversTotal)''),
      (''offers_total'',
       ''Total DHCP Offers sent by the DHCP server (OffersTotal)''),
      (''requests_total'',
       ''Total DHCP Requests received by the DHCP server (RequestsTotal)''),
      (''informs_total'',
       ''Total DHCP Informs received by the DHCP server (InformsTotal)''),
      (''acks_total'',
       ''Total DHCP Acks sent by the DHCP server (AcksTotal)''),
      (''nacks_total'',
       ''Total DHCP Nacks sent by the DHCP server (NacksTotal)''),
      (''declines_total'',
       ''Total DHCP Declines received by the DHCP server (DeclinesTotal)''),
      (''releases_total'',
       ''Total DHCP Releases received by the DHCP server (ReleasesTotal)''),
      (''offer_queue_length'',
       ''Number of packets in the offer queue of the DHCP server (OfferQueueLength)''),
      (''denied_due_to_match_total'',
       ''Total number of DHCP requests denied, based on matches from the Deny list (DeniedDueToMatch)''),
      (''denied_due_to_nonmatch_total'',
       ''Total number of DHCP requests denied, based on non-matches from the Allow list (DeniedDueToNonMatch)''),
      (''failover_bndupd_sent_total'',
       ''Number of DHCP fail over Binding Update messages sent (FailoverBndupdSentTotal)''),
      (''failover_bndupd_received_total'',
       ''Number of DHCP fail over Binding Update messages received (FailoverBndupdReceivedTotal)''),
      (''failover_bndack_sent_total'',
       ''Number of DHCP fail over Binding Ack messages sent (FailoverBndackSentTotal)''),
      (''failover_bndack_received_total'',
       ''Number of DHCP fail over Binding Ack messages received (FailoverBndackReceivedTotal)''),
      (''failover_bndupd_pending_in_outbound_queue'',
       ''Number of pending outbound DHCP fail over Binding Update messages (FailoverBndupdPendingOutboundQueue)''),
      (''failover_transitions_communicationinterrupted_state_total'',
       ''Total number of transitions into COMMUNICATION INTERRUPTED state (FailoverTransitionsCommunicationinterruptedState)''),
      (''failover_transitions_partnerdown_state_total'',
       ''Total number of transitions into PARTNER DOWN state (FailoverTransitionsPartnerdownState)''),
      (''failover_transitions_recover_total'',
       ''Total number of transitions into RECOVER state (FailoverTransitionsRecoverState)''),
      (''failover_bndupd_dropped_total'',
       ''Total number of DHCP fail over Binding Updates dropped (FailoverBndupdDropped)'')]"

text \<open>
  The samples a collector built under namespace \<open>ns\<close> sends for a list of values:
  the descriptor \<open>Build\<close> made for each position, its value type, and the value.
\<close>

definition metricsOf :: "string \<Rightarrow> float64 list \<Rightarrow> Metric list" where
  "metricsOf ns vs =
     map (\<lambda>(((n, h), t), v).
            \<lparr>desc = NewDesc (BuildFQName ns Name n) h [] [], valueType = t, val = v\<rparr>)
         (zip (zip metricTable kinds) vs)"

subsection \<open>A telemetry source to run the collector on\<close>

text \<open>
  A concrete environment for evaluating the definitions: 25 distinct counter identifiers,
  a perflib object given by its list of instance records, which the decoder returns (a
  missing object is an error), and a query handle that records what it was opened for and
  whether it is still open.
\<close>

definition sampleIds :: CounterIds where
  "sampleIds =
     \<lparr>acksTotal_id = ''Acks/sec'',
      activeQueueLength_id = ''Active Queue Length'',
      conflictCheckQueueLength_id = ''Conflict Check Queue Length'',
      declinesTotal_id = ''Declines/sec'',
      deniedDueToMatch_id = ''Denied due to match.'',
      deniedDueToNonMatch_id = ''Denied due to nonmatch.'',
      discoversTotal_id = ''Discovers/sec'',
      duplicatesDroppedTotal_id = ''Duplicates Dropped/sec'',
      failoverBndAckReceivedTotal_id = ''Failover: BndAck received/sec.'',
      failoverBndAckSentTotal_id = ''Failover: BndAck sent/sec.'',
      failoverBndUpdDropped_id = ''Failover: BndUpd Dropped.'',
      failoverBndUpdPendingOutboundQueue_id = ''Failover: BndUpd pending in outbound queue.'',
      failoverBndUpdReceivedTotal_id = ''Failover: BndUpd received/sec.'',
      failoverBndUpdSentTotal_id = ''Failover: BndUpd sent/sec.'',
      failoverTransitionsCommunicationInterruptedState_id = ''Failover: Transitions to COMMUNICATION-INTERRUPTED state.'',
      failoverTransitionsPartnerDownState_id = ''Failover: Transitions to PARTNER-DOWN state.'',
      failoverTransitionsRecoverState_id = ''Failover: Transitions to RECOVER state.'',
      informsTotal_id = ''Informs/sec'',
      nacksTotal_id = ''Nacks/sec'',
      offerQueueLength_id = ''Offer Queue Length'',
      offersTotal_id = ''Offers/sec'',
      packetsExpiredTotal_id = ''Packets Expired/sec'',
      packetsReceivedTotal_id = ''Packets Received/sec'',
      releasesTotal_id = ''Releases/sec'',
      requestsTotal_id = ''Requests/sec''\<rparr>"

record Query =
  objectName :: string
  counterNames :: "string list"
  isOpen :: bool

definition sampleEnv :: "bool \<Rightarrow> (error + PerfData) \<Rightarrow> (dhcpPerf list, Query) env" where
  "sampleEnv pdh result =
     \<lparr>Namespace = ''windows'',
      EmptyInstance = ''------'',
      ids = sampleIds,
      PDHEnabled = pdh,
      NewCollector = (\<lambda>obj cs. Inr \<lparr>objectName = obj, counterNames = cs, isOpen = True\<rparr>),
      perfCollect = (\<lambda>h. result),
      UnmarshalObject =
        (\<lambda>obj. case obj of None \<Rightarrow> Inl (errors_New ''counter not found'')
                | Some instances \<Rightarrow> Inr instances)\<rparr>"

definition samplePerf :: dhcpPerf where
  "samplePerf =
     \<lparr>PacketsReceivedTotal = 42,
      DuplicatesDroppedTotal = 1,
      PacketsExpiredTotal = 2,
      ActiveQueueLength = 3,
      ConflictCheckQueueLength = 4,
      DiscoversTotal = 5,
      OffersTotal = 6,
      RequestsTotal = 7,
      InformsTotal = 8,
      AcksTotal = 9,
      NacksTotal = 10,
      DeclinesTotal = 11,
      ReleasesTotal = 12,
      OfferQueueLength = 13,
      DeniedDueToMatch = 14,
      DeniedDueToNonMatch = 15,
      FailoverBndUpdSentTotal = 16,
      FailoverBndUpdReceivedTotal = 17,
      FailoverBndAckSentTotal = 18,
      FailoverBndAckReceivedTotal = 19,
      FailoverBndUpdPendingOutboundQueue = 20,
      FailoverTransitionsCommunicationInterruptedState = 21,
      FailoverTransitionsPartnerDownState = 22,
      FailoverTransitionsRecoverState = 23,
      FailoverBndUpdDropped = 24\<rparr>"

definition sampleData :: "string \<rightharpoonup> CounterValues" where
  "sampleData = map_of
     [(packetsReceivedTotal_id sampleIds, \<lparr>FirstValue = 42, SecondValue = 0\<rparr>),
      (duplicatesDroppedTotal_id sampleIds, \<lparr>FirstValue = 1, SecondValue = 0\<rparr>),
      (packetsExpiredTotal_id sampleIds, \<lparr>FirstValue = 2, SecondValue = 0\<rparr>),
      (activeQueueLength_id sampleIds, \<lparr>FirstValue = 3, SecondValue = 0\<rparr>),
      (conflictCheckQueueLength_id sampleIds, \<lparr>FirstValue = 4, SecondValue = 0\<rparr>),
      (discoversTotal_id sampleIds, \<lparr>FirstValue = 5, SecondValue = 0\<rparr>),
      (offersTotal_id sampleIds, \<lparr>FirstValue = 6, SecondValue = 0\<rparr>),
      (requestsTotal_id sampleIds, \<lparr>FirstValue = 7, SecondValue = 0\<rparr>),
      (informsTotal_id sampleIds, \<lparr>FirstValue = 8, SecondValue = 0\<rparr>),
      (acksTotal_id sampleIds, \<lparr>FirstValue = 9, SecondValue = 0\<rparr>),
      (nacksTotal_id sampleIds, \<lparr>FirstValue = 10, SecondValue = 0\<rparr>),
      (declinesTotal_id sampleIds, \<lparr>FirstValue = 11, SecondValue = 0\<rparr>),
      (releasesTotal_id sampleIds, \<lparr>FirstValue = 12, SecondValue = 0\<rparr>),
      (offerQueueLength_id sampleIds, \<lparr>FirstValue = 13, SecondValue = 0\<rparr>),
      (deniedDueToMatch_id sampleIds, \<lparr>FirstValue = 14, SecondValue = 0\<rparr>),
      (deniedDueToNonMatch_id sampleIds, \<lparr>FirstValue = 15, SecondValue = 0\<rparr>),
      (failoverBndUpdSentTotal_id sampleIds, \<lparr>FirstValue = 16, SecondValue = 0\<rparr>),
      (failoverBndUpdReceivedTotal_id sampleIds, \<lparr>FirstValue = 17, SecondValue = 0\<rparr>),
      (failoverBndAckSentTotal_id sampleIds, \<lparr>FirstValue = 18, SecondValue = 0\<rparr>),
      (failoverBndAckReceivedTotal_id sampleIds, \<lparr>FirstValue = 19, SecondValue = 0\<rparr>),
      (failoverBndUpdPendingOutboundQueue_id sampleIds, \<lparr>FirstValue = 20, SecondValue = 0\<rparr>),
      (failoverTransitionsCommunicationInterruptedState_id sampleIds, \<lparr>FirstValue = 21, SecondValue = 0\<rparr>),
      (failoverTransitionsPartnerDownState_id sampleIds, \<lparr>FirstValue = 22, SecondValue = 0\<rparr>),
      (failoverTransitionsRecoverState_id sampleIds, \<lparr>FirstValue = 23, SecondValue = 0\<rparr>),
      (failoverBndUpdDropped_id sampleIds, \<lparr>FirstValue = 24, SecondValue = 0\<rparr>)]"

definition sampleContext :: "dhcpPerf list \<Rightarrow> (dhcpPerf list) ScrapeContext" where
  "sampleContext instances = \<lparr>PerfObjects = [''DHCP Server'' \<mapsto> instances]\<rparr>"

section \<open>Properties\<close>

subsection \<open>The shape of a collection pass\<close>

text \<open>A sequence of sends without a nil descriptor runs to its end.\<close>

lemma sends_Some: "sends (map Some ms) ch = (Returned None, ch @ ms)"
  by (induction ms arbitrary: ch) simp_all

text \<open>Both paths send the samples of the catalog, each with its own values.\<close>

lemma collect_sends:
  "UnmarshalObject env (PerfObjects ctx ''DHCP Server'') = Inr (p # ps) \<Longrightarrow>
   collect env c ctx ch = sends (samples (catalog c) (legacyValues p)) ch"
  by (simp add: collect_def samples_def catalog_def descriptors_def kinds_def legacyValues_def)

lemma collectPDH_sends:
  "perfDataCollector c = Some h \<Longrightarrow> perfCollect env h = Inr pd \<Longrightarrow>
   pd (EmptyInstance env) = Some data \<Longrightarrow>
   collectPDH env c ch = sends (samples (catalog c) (pdhValues (ids env) data)) ch"
  by (simp add: collectPDH_def samples_def catalog_def descriptors_def kinds_def
      pdhValues_def pdhKeys_def)

text \<open>What \<open>Build\<close> leaves on the collector when it succeeds.\<close>

lemma descriptors_newDescs:
  "descriptors (newDescs ns c) =
     map (\<lambda>(n, h). Some (NewDesc (BuildFQName ns Name n) h [] [])) metricTable"
  by (simp add: newDescs_def descriptors_def metricTable_def)

lemma perfDataCollector_newDescs: "perfDataCollector (newDescs ns c) = perfDataCollector c"
  by (simp add: newDescs_def)

lemma Build_success:
  "Build env c0 = (c, None) \<Longrightarrow>
   \<exists>c1. newPerfDataCollector env c0 = (c1, None) \<and> c = newDescs (Namespace env) c1"
  by (auto simp add: Build_def split: prod.splits option.splits)

lemma Build_descriptors:
  "Build env c0 = (c, None) \<Longrightarrow>
   descriptors c =
     map (\<lambda>(n, h). Some (NewDesc (BuildFQName (Namespace env) Name n) h [] [])) metricTable"
  using Build_success descriptors_newDescs by blast

lemma Build_handle:
  "Build env c0 = (c, None) \<Longrightarrow> PDHEnabled env \<Longrightarrow> \<exists>h. perfDataCollector c = Some h"
  by (auto simp add: newPerfDataCollector_def perfDataCollector_newDescs
      split: sum.splits dest!: Build_success)

text \<open>On a built collector no send panics, and the samples are those of \<open>metricsOf\<close>.\<close>

lemma samples_zip:
  "samples (zip (map (\<lambda>(n, h). Some (D n h)) tbl) ks) vs =
   map Some (map (\<lambda>(((n, h), t), v). \<lparr>desc = D n h, valueType = t, val = v\<rparr>)
     (zip (zip tbl ks) vs))"
proof (induction tbl arbitrary: ks vs)
  case Nil
  then show ?case by (simp add: samples_def)
next
  case (Cons a tbl)
  show ?case
  proof (cases ks)
    case Nil
    then show ?thesis by (simp add: samples_def)
  next
    case ks: (Cons k ks')
    show ?thesis
    proof (cases vs)
      case Nil
      then show ?thesis by (simp add: samples_def)
    next
      case (Cons v vs')
      with ks Cons.IH [of ks' vs'] show ?thesis
        by (cases a) (simp add: samples_def MustNewConstMetric_def)
    qed
  qed
qed

lemma samples_built:
  "Build env c0 = (c, None) \<Longrightarrow>
   samples (catalog c) vs = map Some (metricsOf (Namespace env) vs)"
  unfolding catalog_def metricsOf_def
  by (simp only: Build_descriptors samples_zip)

lemma collect_built:
  "Build env0 c0 = (c, None) \<Longrightarrow>
   UnmarshalObject env (PerfObjects ctx ''DHCP Server'') = Inr (p # ps) \<Longrightarrow>
   collect env c ctx ch = (Returned None, ch @ metricsOf (Namespace env0) (legacyValues p))"
  by (simp only: collect_sends samples_built sends_Some)

lemma collectPDH_built:
  "Build env0 c0 = (c, None) \<Longrightarrow>
   perfDataCollector c = Some h \<Longrightarrow> perfCollect env h = Inr pd \<Longrightarrow>
   pd (EmptyInstance env) = Some data \<Longrightarrow>
   collectPDH env c ch =
     (Returned None, ch @ metricsOf (Namespace env0) (pdhValues (ids env) data))"
  by (simp only: collectPDH_sends samples_built sends_Some)

lemma length_legacyValues: "length (legacyValues p) = 25"
  by (simp add: legacyValues_def)

lemma length_pdhValues: "length (pdhValues i data) = 25"
  by (simp add: pdhValues_def pdhKeys_def)

lemma length_metricTable: "length metricTable = 25"
  by (simp add: metricTable_def)

lemma length_kinds: "length kinds = 25"
  by (simp add: kinds_def)

lemma length_metricsOf: "length vs = 25 \<Longrightarrow> length (metricsOf ns vs) = 25"
  by (simp add: metricsOf_def length_metricTable length_kinds)

lemma nth_metricsOf:
  "length vs = 25 \<Longrightarrow> i < 25 \<Longrightarrow>
   metricsOf ns vs ! i =
     \<lparr>desc = NewDesc (BuildFQName ns Name (fst (metricTable ! i))) (snd (metricTable ! i)) [] [],
      valueType = kinds ! i, val = vs ! i\<rparr>"
  by (simp add: metricsOf_def length_metricTable length_kinds case_prod_beta)

text \<open>The two ways the legacy path ends without sending.\<close>

lemma collect_empty:
  "UnmarshalObject env (PerfObjects ctx ''DHCP Server'') = Inr [] \<Longrightarrow>
   collect env c ctx ch = (Panicked, ch)"
  by (simp add: collect_def)

lemma collect_decode_error:
  "UnmarshalObject env (PerfObjects ctx ''DHCP Server'') = Inl err \<Longrightarrow>
   collect env c ctx ch = (Returned (Some err), ch)"
  by (simp add: collect_def)

text \<open>The three ways the PDH path ends without sending.\<close>

lemma collectPDH_nil_handle:
  "perfDataCollector c = None \<Longrightarrow> collectPDH env c ch = (Panicked, ch)"
  by (simp add: collectPDH_def)

lemma collectPDH_collect_error:
  "perfDataCollector c = Some h \<Longrightarrow> perfCollect env h = Inl err \<Longrightarrow>
   collectPDH env c ch =
     (Returned (Some (fmt_Errorf ''failed to collect DHCP Server metrics: '' err)), ch)"
  by (simp add: collectPDH_def)

lemma collectPDH_no_instance:
  "perfDataCollector c = Some h \<Longrightarrow> perfCollect env h = Inr pd \<Longrightarrow>
   pd (EmptyInstance env) = None \<Longrightarrow>
   collectPDH env c ch =
     (Returned (Some (errors_New ''perflib query for DHCP Server returned empty result set'')), ch)"
  by (simp add: collectPDH_def)

text \<open>
  Every pass over a built collector ends in one of three ways: all 25 samples and success,
  an error and no sample, or a panic and no sample; the panic has exactly two causes.
\<close>

lemma Collect_outcomes:
  assumes "Build env0 c0 = (c, None)"
  shows "(\<exists>vs. length vs = 25 \<and>
            Collect_metrics env c ctx ch = (Returned None, ch @ metricsOf (Namespace env0) vs)) \<or>
         (\<exists>e. Collect_metrics env c ctx ch = (Returned (Some e), ch)) \<or>
         (Collect_metrics env c ctx ch = (Panicked, ch) \<and>
            (if PDHEnabled env then perfDataCollector c = None
             else UnmarshalObject env (PerfObjects ctx ''DHCP Server'') = Inr []))"
proof (cases "PDHEnabled env")
  case True
  then have C: "Collect_metrics env c ctx ch = collectPDH env c ch" by (simp add: Collect_metrics_def)
  show ?thesis
  proof (cases "perfDataCollector c")
    case None
    with True C show ?thesis by (simp add: collectPDH_nil_handle)
  next
    case (Some h)
    show ?thesis
    proof (cases "perfCollect env h")
      case (Inl err)
      with Some C show ?thesis by (simp add: collectPDH_collect_error)
    next
      case (Inr pd)
      show ?thesis
      proof (cases "pd (EmptyInstance env)")
        case None
        with Some Inr C show ?thesis by (simp add: collectPDH_no_instance)
      next
        case (Some data)
        have "collectPDH env c ch =
            (Returned None, ch @ metricsOf (Namespace env0) (pdhValues (ids env) data))"
          using assms \<open>perfDataCollector c = Some h\<close> Inr Some by (rule collectPDH_built)
        with C length_pdhValues show ?thesis by metis
      qed
    qed
  qed
next
  case False
  then have C: "Collect_metrics env c ctx ch = collect env c ctx ch" by (simp add: Collect_metrics_def)
  show ?thesis
  proof (cases "UnmarshalObject env (PerfObjects ctx ''DHCP Server'')")
    case (Inl err)
    with C show ?thesis by (simp add: collect_decode_error)
  next
    case (Inr dhcpPerfs)
    show ?thesis
    proof (cases dhcpPerfs)
      case Nil
      with Inr C False show ?thesis by (simp add: collect_empty)
    next
      case (Cons p ps)
      with Inr have "collect env c ctx ch =
          (Returned None, ch @ metricsOf (Namespace env0) (legacyValues p))"
        using assms by (simp add: collect_built)
      with C length_legacyValues show ?thesis by metis
    qed
  qed
qed

lemma Collect_success:
  assumes "Build env0 c0 = (c, None)" and "Collect_metrics env c ctx ch = (Returned None, ch')"
  shows "\<exists>vs. length vs = 25 \<and> ch' = ch @ metricsOf (Namespace env0) vs"
  using Collect_outcomes [OF assms(1), of env ctx ch] assms(2) by auto

text \<open>The names and value types of the samples, and the names of the descriptors.\<close>

lemma names_kinds_metricsOf:
  assumes "length vs = 25" and "ns \<noteq> []"
  shows "map (\<lambda>m. (fqName (desc m), valueType m)) (metricsOf ns vs) =
         map (\<lambda>(n, k). (ns @ ''_dhcp_'' @ n, k))
           [(''packets_received_total'', CounterValue),
        (''duplicates_dropped_total'', CounterValue),
        (''packets_expired_total'', CounterValue),
        (''active_queue_length'', GaugeValue),
        (''conflict_check_queue_length'', GaugeValue),
        (''discovers_total'', CounterValue),
        (''offers_total'', CounterValue),
        (''requests_total'', CounterValue),
        (''informs_total'', CounterValue),
        (''acks_total'', CounterValue),
        (''nacks_total'', CounterValue),
        (''declines_total'', CounterValue),
        (''releases_total'', CounterValue),
        (''offer_queue_length'', GaugeValue),
        (''denied_due_to_match_total'', CounterValue),
        (''denied_due_to_nonmatch_total'', CounterValue),
        (''failover_bndupd_sent_total'', CounterValue),
        (''failover_bndupd_received_total'', CounterValue),
        (''failover_bndack_sent_total'', CounterValue),
        (''failover_bndack_received_total'', CounterValue),
        (''failover_bndupd_pending_in_outbound_queue'', GaugeValue),
        (''failover_transitions_communicationinterrupted_state_total'', CounterValue),
        (''failover_transitions_partnerdown_state_total'', CounterValue),
        (''failover_transitions_recover_total'', CounterValue),
        (''failover_bndupd_dropped_total'', CounterValue)]"
proof -
  have "map (\<lambda>m. (fqName (desc m), valueType m)) (metricsOf ns vs) =
        map (\<lambda>((n, h), t). (BuildFQName ns Name n, t)) (map fst (zip (zip metricTable kinds) vs))"
    by (simp add: metricsOf_def NewDesc_def case_prod_beta)
  also have "map fst (zip (zip metricTable kinds) vs) = zip metricTable kinds"
    using assms(1) by (simp add: length_metricTable length_kinds)
  also have "map (\<lambda>((n, h), t). (BuildFQName ns Name n, t)) (zip metricTable kinds) =
        map (\<lambda>(n, k). (ns @ ''_dhcp_'' @ n, k))
           [(''packets_received_total'', CounterValue),
        (''duplicates_dropped_total'', CounterValue),
        (''packets_expired_total'', CounterValue),
        (''active_queue_length'', GaugeValue),
        (''conflict_check_queue_length'', GaugeValue),
        (''discovers_total'', CounterValue),
        (''offers_total'', CounterValue),
        (''requests_total'', CounterValue),
        (''informs_total'', CounterValue),
        (''acks_total'', CounterValue),
        (''nacks_total'', CounterValue),
        (''declines_total'', CounterValue),
        (''releases_total'', CounterValue),
        (''offer_queue_length'', GaugeValue),
        (''denied_due_to_match_total'', CounterValue),
        (''denied_due_to_nonmatch_total'', CounterValue),
        (''failover_bndupd_sent_total'', CounterValue),
        (''failover_bndupd_received_total'', CounterValue),
        (''failover_bndack_sent_total'', CounterValue),
        (''failover_bndack_received_total'', CounterValue),
        (''failover_bndupd_pending_in_outbound_queue'', GaugeValue),
        (''failover_transitions_communicationinterrupted_state_total'', CounterValue),
        (''failover_transitions_partnerdown_state_total'', CounterValue),
        (''failover_transitions_recover_total'', CounterValue),
        (''failover_bndupd_dropped_total'', CounterValue)]"
    using assms(2) by (simp add: metricTable_def kinds_def BuildFQName_def Name_def)
  finally show ?thesis .
qed

lemma names_descriptors:
  assumes "Build env0 c0 = (c, None)" and "Namespace env0 \<noteq> []"
  shows "map (map_option fqName) (descriptors c) =
         map (\<lambda>(n, k). Some (Namespace env0 @ ''_dhcp_'' @ n))
           [(''packets_received_total'', CounterValue),
        (''duplicates_dropped_total'', CounterValue),
        (''packets_expired_total'', CounterValue),
        (''active_queue_length'', GaugeValue),
        (''conflict_check_queue_length'', GaugeValue),
        (''discovers_total'', CounterValue),
        (''offers_total'', CounterValue),
        (''requests_total'', CounterValue),
        (''informs_total'', CounterValue),
        (''acks_total'', CounterValue),
        (''nacks_total'', CounterValue),
        (''declines_total'', CounterValue),
        (''releases_total'', CounterValue),
        (''offer_queue_length'', GaugeValue),
        (''denied_due_to_match_total'', CounterValue),
        (''denied_due_to_nonmatch_total'', CounterValue),
        (''failover_bndupd_sent_total'', CounterValue),
        (''failover_bndupd_received_total'', CounterValue),
        (''failover_bndack_sent_total'', CounterValue),
        (''failover_bndack_received_total'', CounterValue),
        (''failover_bndupd_pending_in_outbound_queue'', GaugeValue),
        (''failover_transitions_communicationinterrupted_state_total'', CounterValue),
        (''failover_transitions_partnerdown_state_total'', CounterValue),
        (''failover_transitions_recover_total'', CounterValue),
        (''failover_bndupd_dropped_total'', CounterValue)]"
  using assms(2)
  by (simp add: Build_descriptors [OF assms(1)] metricTable_def NewDesc_def BuildFQName_def Name_def)

subsection \<open>The sample telemetry source, evaluated\<close>

lemma sample_encodes: "encodes sampleIds sampleData samplePerf"
  by (simp add: encodes_def pdhValues_def pdhKeys_def legacyValues_def sampleIds_def sampleData_def samplePerf_def index_def)

lemma Build_sample:
  "Build (sampleEnv pdh r) (New None) = (fst (Build (sampleEnv pdh r) (New None)), None)"
  by (simp add: Build_def newPerfDataCollector_def sampleEnv_def split: prod.splits)

lemma Build_sample_handle:
  "perfDataCollector (fst (Build (sampleEnv True r) (New None))) =
     Some \<lparr>objectName = ''DHCP Server'', counterNames = counters sampleIds, isOpen = True\<rparr>"
  by (simp add: Build_def newPerfDataCollector_def sampleEnv_def perfDataCollector_newDescs)

lemma Namespace_sample: "Namespace (sampleEnv pdh r) = ''windows''"
  by (simp add: sampleEnv_def)

lemma Unmarshal_sample:
  "UnmarshalObject (sampleEnv pdh r) (PerfObjects (sampleContext instances) ''DHCP Server'') =
     Inr instances"
  by (simp add: sampleEnv_def sampleContext_def)

subsection \<open>The two strategies agree\<close>

text \<open>
  Claim C1. Take a collector built for the legacy path and one built for the PDH path under
  the same namespace, a snapshot that decodes to at least one record \<open>p\<close>, and a PDH
  result whose empty instance encodes the values of \<open>p\<close>. Then \<open>collectPDH\<close> and
  \<open>collect\<close> return the same outcome and leave the same channel: both succeed and append
  the same 25 samples, with the same names, help texts, value types and values, in the same
  order.
\<close>

theorem strategies_emit_same_samples:
  assumes "Build envL cL0 = (cL, None)" and "Build envP cP0 = (cP, None)"
    and "Namespace envP = Namespace envL"
    and "UnmarshalObject envL (PerfObjects ctx ''DHCP Server'') = Inr (p # ps)"
    and "perfDataCollector cP = Some h" and "perfCollect envP h = Inr pd"
    and "pd (EmptyInstance envP) = Some data"
    and "encodes (ids envP) data p"
  shows "collectPDH envP cP ch = collect envL cL ctx ch \<and>
         collect envL cL ctx ch = (Returned None, ch @ metricsOf (Namespace envL) (legacyValues p))"
proof -
  have "collect envL cL ctx ch = (Returned None, ch @ metricsOf (Namespace envL) (legacyValues p))"
    using assms(1,4) by (rule collect_built)
  moreover have "collectPDH envP cP ch =
      (Returned None, ch @ metricsOf (Namespace envP) (pdhValues (ids envP) data))"
    using assms(2,5,6,7) by (rule collectPDH_built)
  moreover have "pdhValues (ids envP) data = legacyValues p"
    using assms(8) by (simp add: encodes_def)
  ultimately show ?thesis using assms(3) by simp
qed

text \<open>
  Claim C1, witness: the sample source, with \<open>sampleData\<close> under the empty instance
  on the PDH side and \<open>samplePerf\<close> as the only record on the legacy side.
\<close>

theorem strategies_emit_same_samples_witness:
  "collectPDH (sampleEnv True (Inr [''------'' \<mapsto> sampleData]))
      (fst (Build (sampleEnv True (Inr [''------'' \<mapsto> sampleData])) (New None))) [] =
   collect (sampleEnv False (Inr Map.empty))
      (fst (Build (sampleEnv False (Inr Map.empty)) (New None))) (sampleContext [samplePerf]) [] \<and>
   collect (sampleEnv False (Inr Map.empty))
      (fst (Build (sampleEnv False (Inr Map.empty)) (New None))) (sampleContext [samplePerf]) [] =
   (Returned None, [] @ metricsOf ''windows'' (legacyValues samplePerf))"
proof -
  have 3: "Namespace (sampleEnv True (Inr [''------'' \<mapsto> sampleData])) =
           Namespace (sampleEnv False (Inr Map.empty) :: (dhcpPerf list, Query) env)"
    by (simp add: sampleEnv_def)
  have 4: "UnmarshalObject (sampleEnv False (Inr Map.empty) :: (dhcpPerf list, Query) env)
             (PerfObjects (sampleContext [samplePerf]) ''DHCP Server'') = Inr (samplePerf # [])"
    by (simp add: sampleEnv_def sampleContext_def)
  have 6: "perfCollect (sampleEnv True (Inr [''------'' \<mapsto> sampleData]) :: (dhcpPerf list, Query) env)
             \<lparr>objectName = ''DHCP Server'', counterNames = counters sampleIds, isOpen = True\<rparr> =
           Inr [''------'' \<mapsto> sampleData]"
    by (simp add: sampleEnv_def)
  have 7: "[''------'' \<mapsto> sampleData]
             (EmptyInstance (sampleEnv True (Inr [''------'' \<mapsto> sampleData]) :: (dhcpPerf list, Query) env)) =
           Some sampleData"
    by (simp add: sampleEnv_def)
  have 8: "encodes (ids (sampleEnv True (Inr [''------'' \<mapsto> sampleData]) :: (dhcpPerf list, Query) env))
             sampleData samplePerf"
    by (simp add: sampleEnv_def sample_encodes)
  have ns: "Namespace (sampleEnv False (Inr Map.empty) :: (dhcpPerf list, Query) env) = ''windows''"
    by (simp add: sampleEnv_def)
  show ?thesis
    using strategies_emit_same_samples [OF Build_sample Build_sample 3 4 Build_sample_handle 6 7 8, of "[]"]
    by (simp only: ns)
qed

subsection \<open>A snapshot without records\<close>

text \<open>
  Claim C2 says that the legacy path returns a ``no records'' error when the snapshot
  decodes to an empty sequence. The source has no such check: \<open>dhcpPerfs[0]\<close> is read
  at once, and on the sample source with an object that has no instance \<open>collect\<close>
  panics, having sent nothing.
\<close>

theorem collect_empty_records_panics:
  "collect (sampleEnv False (Inr Map.empty)) (fst (Build (sampleEnv False (Inr Map.empty)) (New None))) (sampleContext []) [] = (Panicked, [])"
  by (simp add: collect_empty Unmarshal_sample)

subsection \<open>A PDH result without the empty instance\<close>

text \<open>
  Claim C3, counterexample to the wording: on the sample source with an empty PDH result,
  \<open>collectPDH\<close> returns an error and sends nothing, but the message of the error is
  ``perflib query for DHCP Server returned empty result set'', which does not contain
  ``not found''.
\<close>

theorem collectPDH_missing_instance_counterexample:
  "collectPDH (sampleEnv True (Inr Map.empty)) (fst (Build (sampleEnv True (Inr Map.empty)) (New None))) [] = (Returned (Some (errors_New ''perflib query for DHCP Server returned empty result set'')), []) \<and>
   \<not> sublist ''not found'' (Error (errors_New ''perflib query for DHCP Server returned empty result set''))"
proof -
  have "perfCollect (sampleEnv True (Inr Map.empty))
          \<lparr>objectName = ''DHCP Server'', counterNames = counters sampleIds, isOpen = True\<rparr> =
        Inr Map.empty"
    by (simp add: sampleEnv_def)
  then have "collectPDH (sampleEnv True (Inr Map.empty)) (fst (Build (sampleEnv True (Inr Map.empty)) (New None))) [] = (Returned (Some (errors_New ''perflib query for DHCP Server returned empty result set'')), [])"
    using Build_sample_handle by (simp add: collectPDH_no_instance)
  moreover have "\<not> sublist ''not found'' (Error (errors_New ''perflib query for DHCP Server returned empty result set''))"
    by (simp add: sublist_code(3))
  ultimately show ?thesis by simp
qed

text \<open>
  Claim C3 as amended: when the result of \<open>Collect()\<close> lacks the empty instance,
  \<open>collectPDH\<close> returns the error ``perflib query for DHCP Server returned empty result
  set'' and sends no sample.
\<close>

theorem collectPDH_missing_instance:
  assumes "perfDataCollector c = Some h" and "perfCollect env h = Inr pd"
    and "pd (EmptyInstance env) = None"
  shows "collectPDH env c ch = (Returned (Some (errors_New ''perflib query for DHCP Server returned empty result set'')), ch)"
  using assms by (simp add: collectPDH_def)

text \<open>Claim C3, witness: the built sample collector and an empty PDH result.\<close>

theorem collectPDH_missing_instance_witness:
  "perfDataCollector (fst (Build (sampleEnv True (Inr Map.empty)) (New None))) =
     Some \<lparr>objectName = ''DHCP Server'', counterNames = counters sampleIds, isOpen = True\<rparr> \<and>
   perfCollect (sampleEnv True (Inr Map.empty))
     \<lparr>objectName = ''DHCP Server'', counterNames = counters sampleIds, isOpen = True\<rparr> =
     Inr Map.empty \<and>
   collectPDH (sampleEnv True (Inr Map.empty)) (fst (Build (sampleEnv True (Inr Map.empty)) (New None))) [] = (Returned (Some (errors_New ''perflib query for DHCP Server returned empty result set'')), [])"
proof -
  have 2: "perfCollect (sampleEnv True (Inr Map.empty))
          \<lparr>objectName = ''DHCP Server'', counterNames = counters sampleIds, isOpen = True\<rparr> =
        Inr Map.empty"
    by (simp add: sampleEnv_def)
  have 3: "(Map.empty :: PerfData) (EmptyInstance (sampleEnv True (Inr Map.empty))) = None"
    by simp
  show ?thesis
    using collectPDH_missing_instance [OF Build_sample_handle 2 3, where ch = "[]"] Build_sample_handle 2
    by simp
qed

subsection \<open>The metric set\<close>

text \<open>
  Claim C4. \<open>Build\<close> makes the 25 descriptors with the names below, each prefixed by
  the namespace and the component name ``dhcp'', and every collection pass over the built
  collector that returns success, on either path, appends exactly one sample per entry, with
  that name and that value type, in the order below: 21 counters and the 4 gauges
  \<open>active_queue_length\<close>, \<open>conflict_check_queue_length\<close>, \<open>offer_queue_length\<close> and
  \<open>failover_bndupd_pending_in_outbound_queue\<close>.
\<close>

theorem Build_and_Collect_metric_set:
  assumes "Build env0 c0 = (c, None)" and "Namespace env0 \<noteq> []"
    and "Collect_metrics env c ctx ch = (Returned None, ch')"
  shows "map (map_option fqName) (descriptors c) =
         map (\<lambda>(n, k). Some (Namespace env0 @ ''_dhcp_'' @ n))
           [(''packets_received_total'', CounterValue),
        (''duplicates_dropped_total'', CounterValue),
        (''packets_expired_total'', CounterValue),
        (''active_queue_length'', GaugeValue),
        (''conflict_check_queue_length'', GaugeValue),
        (''discovers_total'', CounterValue),
        (''offers_total'', CounterValue),
        (''requests_total'', CounterValue),
        (''informs_total'', CounterValue),
        (''acks_total'', CounterValue),
        (''nacks_total'', CounterValue),
        (''declines_total'', CounterValue),
        (''releases_total'', CounterValue),
        (''offer_queue_length'', GaugeValue),
        (''denied_due_to_match_total'', CounterValue),
        (''denied_due_to_nonmatch_total'', CounterValue),
        (''failover_bndupd_sent_total'', CounterValue),
        (''failover_bndupd_received_total'', CounterValue),
        (''failover_bndack_sent_total'', CounterValue),
        (''failover_bndack_received_total'', CounterValue),
        (''failover_bndupd_pending_in_outbound_queue'', GaugeValue),
        (''failover_transitions_communicationinterrupted_state_total'', CounterValue),
        (''failover_transitions_partnerdown_state_total'', CounterValue),
        (''failover_transitions_recover_total'', CounterValue),
        (''failover_bndupd_dropped_total'', CounterValue)] \<and>
         (\<exists>ms. ch' = ch @ ms \<and>
            map (\<lambda>m. (fqName (desc m), valueType m)) ms =
            map (\<lambda>(n, k). (Namespace env0 @ ''_dhcp_'' @ n, k))
              [(''packets_received_total'', CounterValue),
        (''duplicates_dropped_total'', CounterValue),
        (''packets_expired_total'', CounterValue),
        (''active_queue_length'', GaugeValue),
        (''conflict_check_queue_length'', GaugeValue),
        (''discovers_total'', CounterValue),
        (''offers_total'', CounterValue),
        (''requests_total'', CounterValue),
        (''informs_total'', CounterValue),
        (''acks_total'', CounterValue),
        (''nacks_total'', CounterValue),
        (''declines_total'', CounterValue),
        (''releases_total'', CounterValue),
        (''offer_queue_length'', GaugeValue),
        (''denied_due_to_match_total'', CounterValue),
        (''denied_due_to_nonmatch_total'', CounterValue),
        (''failover_bndupd_sent_total'', CounterValue),
        (''failover_bndupd_received_total'', CounterValue),
        (''failover_bndack_sent_total'', CounterValue),
        (''failover_bndack_received_total'', CounterValue),
        (''failover_bndupd_pending_in_outbound_queue'', GaugeValue),
        (''failover_transitions_communicationinterrupted_state_total'', CounterValue),
        (''failover_transitions_partnerdown_state_total'', CounterValue),
        (''failover_transitions_recover_total'', CounterValue),
        (''failover_bndupd_dropped_total'', CounterValue)])"
proof -
  obtain vs where vs: "length vs = 25" "ch' = ch @ metricsOf (Namespace env0) vs"
    using Collect_success [OF assms(1,3)] by blast
  show ?thesis
    using names_descriptors [OF assms(1,2)] names_kinds_metricsOf [OF vs(1) assms(2)] vs(2)
    by blast
qed

text \<open>
  Claim C4, witness: the sample collector built under the namespace ``windows'', collecting
  one record on the legacy path.
\<close>

theorem Build_and_Collect_metric_set_witness:
  "Namespace (sampleEnv False (Inr Map.empty)) \<noteq> [] \<and>
   Collect_metrics (sampleEnv False (Inr Map.empty)) (fst (Build (sampleEnv False (Inr Map.empty)) (New None))) (sampleContext [samplePerf]) [] =
     (Returned None, metricsOf ''windows'' (legacyValues samplePerf)) \<and>
   map (map_option fqName) (descriptors (fst (Build (sampleEnv False (Inr Map.empty)) (New None)))) =
     map (\<lambda>(n, k). Some (''windows'' @ ''_dhcp_'' @ n))
       [(''packets_received_total'', CounterValue),
        (''duplicates_dropped_total'', CounterValue),
        (''packets_expired_total'', CounterValue),
        (''active_queue_length'', GaugeValue),
        (''conflict_check_queue_length'', GaugeValue),
        (''discovers_total'', CounterValue),
        (''offers_total'', CounterValue),
        (''requests_total'', CounterValue),
        (''informs_total'', CounterValue),
        (''acks_total'', CounterValue),
        (''nacks_total'', CounterValue),
        (''declines_total'', CounterValue),
        (''releases_total'', CounterValue),
        (''offer_queue_length'', GaugeValue),
        (''denied_due_to_match_total'', CounterValue),
        (''denied_due_to_nonmatch_total'', CounterValue),
        (''failover_bndupd_sent_total'', CounterValue),
        (''failover_bndupd_received_total'', CounterValue),
        (''failover_bndack_sent_total'', CounterValue),
        (''failover_bndack_received_total'', CounterValue),
        (''failover_bndupd_pending_in_outbound_queue'', GaugeValue),
        (''failover_transitions_communicationinterrupted_state_total'', CounterValue),
        (''failover_transitions_partnerdown_state_total'', CounterValue),
        (''failover_transitions_recover_total'', CounterValue),
        (''failover_bndupd_dropped_total'', CounterValue)] \<and>
   (\<exists>ms. metricsOf ''windows'' (legacyValues samplePerf) = [] @ ms \<and>
      map (\<lambda>m. (fqName (desc m), valueType m)) ms =
      map (\<lambda>(n, k). (''windows'' @ ''_dhcp_'' @ n, k))
        [(''packets_received_total'', CounterValue),
        (''duplicates_dropped_total'', CounterValue),
        (''packets_expired_total'', CounterValue),
        (''active_queue_length'', GaugeValue),
        (''conflict_check_queue_length'', GaugeValue),
        (''discovers_total'', CounterValue),
        (''offers_total'', CounterValue),
        (''requests_total'', CounterValue),
        (''informs_total'', CounterValue),
        (''acks_total'', CounterValue),
        (''nacks_total'', CounterValue),
        (''declines_total'', CounterValue),
        (''releases_total'', CounterValue),
        (''offer_queue_length'', GaugeValue),
        (''denied_due_to_match_total'', CounterValue),
        (''denied_due_to_nonmatch_total'', CounterValue),
        (''failover_bndupd_sent_total'', CounterValue),
        (''failover_bndupd_received_total'', CounterValue),
        (''failover_bndack_sent_total'', CounterValue),
        (''failover_bndack_received_total'', CounterValue),
        (''failover_bndupd_pending_in_outbound_queue'', GaugeValue),
        (''failover_transitions_communicationinterrupted_state_total'', CounterValue),
        (''failover_transitions_partnerdown_state_total'', CounterValue),
        (''failover_transitions_recover_total'', CounterValue),
        (''failover_bndupd_dropped_total'', CounterValue)])"
proof -
  have 2: "Namespace (sampleEnv False (Inr Map.empty)) \<noteq> []"
    by (simp add: Namespace_sample)
  have "collect (sampleEnv False (Inr Map.empty)) (fst (Build (sampleEnv False (Inr Map.empty)) (New None))) (sampleContext [samplePerf]) [] =
      (Returned None, [] @ metricsOf (Namespace (sampleEnv False (Inr Map.empty))) (legacyValues samplePerf))"
    using Build_sample Unmarshal_sample by (rule collect_built)
  then have 3: "Collect_metrics (sampleEnv False (Inr Map.empty)) (fst (Build (sampleEnv False (Inr Map.empty)) (New None))) (sampleContext [samplePerf]) [] =
      (Returned None, metricsOf ''windows'' (legacyValues samplePerf))"
    by (simp add: Collect_metrics_def sampleEnv_def)
  show ?thesis
    using Build_and_Collect_metric_set [OF Build_sample 2 3] 2 3
    by (simp only: Namespace_sample simp_thms)
qed

subsection \<open>All samples or none\<close>

text \<open>
  Claim C5 says that every scrape either sends all 25 samples and returns success, or
  returns an error having sent nothing. \<open>Collect_outcomes\<close> above shows a third outcome
  on a built collector, and the sample source reaches it: with PDH disabled and an object
  without instances, the pass panics; it neither sends the samples nor returns an error.
\<close>

theorem Collect_metrics_no_records_third_outcome:
  "Collect_metrics (sampleEnv False (Inr Map.empty)) (fst (Build (sampleEnv False (Inr Map.empty)) (New None))) (sampleContext []) [] = (Panicked, [])"
  by (simp add: Collect_metrics_def collect_empty Unmarshal_sample) (simp add: sampleEnv_def)

subsection \<open>Where the strategy switch is read\<close>

text \<open>
  Claim C6, counterexample: the strategy is not fixed at Build time. A collector built with
  PDH disabled, asked to collect the same context twice, takes the PDH path (and panics on
  its nil handle) when the switch is on at that moment, and the legacy path when it is off.
\<close>

lemma Build_sample_no_handle:
  "perfDataCollector (fst (Build (sampleEnv False r) (New None))) = None"
  by (simp add: Build_def newPerfDataCollector_def sampleEnv_def perfDataCollector_newDescs New_def)

theorem Collect_rereads_switch_counterexample:
  "Collect_metrics (sampleEnv True (Inr Map.empty)) (fst (Build (sampleEnv False (Inr Map.empty)) (New None))) (sampleContext [samplePerf]) [] = (Panicked, []) \<and>
   Collect_metrics (sampleEnv False (Inr Map.empty)) (fst (Build (sampleEnv False (Inr Map.empty)) (New None))) (sampleContext [samplePerf]) [] =
     (Returned None, metricsOf ''windows'' (legacyValues samplePerf))"
proof -
  have "collect (sampleEnv False (Inr Map.empty)) (fst (Build (sampleEnv False (Inr Map.empty)) (New None))) (sampleContext [samplePerf]) [] =
      (Returned None, [] @ metricsOf (Namespace (sampleEnv False (Inr Map.empty))) (legacyValues samplePerf))"
    using Build_sample Unmarshal_sample by (rule collect_built)
  then have "Collect_metrics (sampleEnv False (Inr Map.empty)) (fst (Build (sampleEnv False (Inr Map.empty)) (New None))) (sampleContext [samplePerf]) [] =
      (Returned None, metricsOf ''windows'' (legacyValues samplePerf))"
    by (simp add: Collect_metrics_def sampleEnv_def)
  moreover have "Collect_metrics (sampleEnv True (Inr Map.empty)) (fst (Build (sampleEnv False (Inr Map.empty)) (New None))) (sampleContext [samplePerf]) [] =
      collectPDH (sampleEnv True (Inr Map.empty)) (fst (Build (sampleEnv False (Inr Map.empty)) (New None))) []"
    by (simp add: Collect_metrics_def sampleEnv_def)
  ultimately show ?thesis
    by (simp add: collectPDH_nil_handle Build_sample_no_handle)
qed

text \<open>
  Claim C6 as amended: the switch is read by \<open>Build\<close>, where it decides whether the
  query handle is created and stored on the collector (otherwise the handle field is left
  as it was), and it is read again by every call of \<open>Collect\<close>, which runs
  \<open>collectPDH\<close> when the switch is on at that call and \<open>collect\<close> when it is off.
  No strategy is stored on the collector apart from the handle: the built collector is the
  one \<open>Build\<close> started from with the handle field as \<open>Build\<close> left it and the 25
  descriptors assigned, and nothing else changed.
\<close>

theorem Collect_follows_switch_at_scrape:
  assumes "Build env0 c0 = (c, None)"
  shows "Collect_metrics env c ctx ch =
           (if PDHEnabled env then collectPDH env c ch else collect env c ctx ch) \<and>
         (PDHEnabled env0 \<longrightarrow>
            (\<exists>h. NewCollector env0 ''DHCP Server'' (counters (ids env0)) = Inr h \<and>
                 perfDataCollector c = Some h)) \<and>
         (\<not> PDHEnabled env0 \<longrightarrow> perfDataCollector c = perfDataCollector c0) \<and>
         c = newDescs (Namespace env0) (c0\<lparr>perfDataCollector := perfDataCollector c\<rparr>)"
proof -
  obtain c1 where c1: "newPerfDataCollector env0 c0 = (c1, None)" "c = newDescs (Namespace env0) c1"
    using Build_success [OF assms] by blast
  have h: "perfDataCollector c = perfDataCollector c1"
    using c1(2) by (simp add: perfDataCollector_newDescs)
  have "c1 = c0\<lparr>perfDataCollector := perfDataCollector c1\<rparr>"
    using c1(1) by (auto simp add: newPerfDataCollector_def split: sum.splits if_splits)
  with h c1(2) have stored: "c = newDescs (Namespace env0) (c0\<lparr>perfDataCollector := perfDataCollector c\<rparr>)"
    by simp
  have "Collect_metrics env c ctx ch =
           (if PDHEnabled env then collectPDH env c ch else collect env c ctx ch) \<and>
         (PDHEnabled env0 \<longrightarrow>
            (\<exists>h. NewCollector env0 ''DHCP Server'' (counters (ids env0)) = Inr h \<and>
                 perfDataCollector c = Some h)) \<and>
         (\<not> PDHEnabled env0 \<longrightarrow> perfDataCollector c = perfDataCollector c0)"
    using h c1(1)
    by (auto simp add: Collect_metrics_def newPerfDataCollector_def split: sum.splits if_splits)
  with stored show ?thesis by blast
qed

text \<open>
  Claim C6, witness: a collector built with the switch off and collecting with it on, and
  one built with the switch on and collecting with it off.
\<close>

theorem Collect_follows_switch_at_scrape_witness:
  "Collect_metrics (sampleEnv True (Inr Map.empty)) (fst (Build (sampleEnv False (Inr Map.empty)) (New None))) (sampleContext [samplePerf]) [] =
     collectPDH (sampleEnv True (Inr Map.empty)) (fst (Build (sampleEnv False (Inr Map.empty)) (New None))) [] \<and>
   perfDataCollector (fst (Build (sampleEnv False (Inr Map.empty)) (New None))) = perfDataCollector (New None) \<and>
   (fst (Build (sampleEnv False (Inr Map.empty)) (New None))) = newDescs (Namespace (sampleEnv False (Inr Map.empty))) ((New None)\<lparr>perfDataCollector := perfDataCollector (fst (Build (sampleEnv False (Inr Map.empty)) (New None)))\<rparr>) \<and>
   Collect_metrics (sampleEnv False (Inr Map.empty)) (fst (Build (sampleEnv True (Inr Map.empty)) (New None))) (sampleContext [samplePerf]) [] =
     collect (sampleEnv False (Inr Map.empty)) (fst (Build (sampleEnv True (Inr Map.empty)) (New None))) (sampleContext [samplePerf]) [] \<and>
   perfDataCollector (fst (Build (sampleEnv True (Inr Map.empty)) (New None))) = Some \<lparr>objectName = ''DHCP Server'', counterNames = counters sampleIds, isOpen = True\<rparr> \<and>
   (fst (Build (sampleEnv True (Inr Map.empty)) (New None))) = newDescs (Namespace (sampleEnv True (Inr Map.empty))) ((New None)\<lparr>perfDataCollector := perfDataCollector (fst (Build (sampleEnv True (Inr Map.empty)) (New None)))\<rparr>)"
proof -
  have off: "\<not> PDHEnabled (sampleEnv False (Inr Map.empty))" and on: "PDHEnabled (sampleEnv True (Inr Map.empty))"
    by (simp_all add: sampleEnv_def)
  have new: "NewCollector (sampleEnv True (Inr Map.empty)) ''DHCP Server'' (counters (ids (sampleEnv True (Inr Map.empty)))) = Inr \<lparr>objectName = ''DHCP Server'', counterNames = counters sampleIds, isOpen = True\<rparr>"
    by (simp add: sampleEnv_def)
  note a = Collect_follows_switch_at_scrape [OF Build_sample [of False "Inr Map.empty"],
        where env = "sampleEnv True (Inr Map.empty)" and ctx = "sampleContext [samplePerf]" and ch = "[]"]
  note b = Collect_follows_switch_at_scrape [OF Build_sample [of True "Inr Map.empty"],
        where env = "sampleEnv False (Inr Map.empty)" and ctx = "sampleContext [samplePerf]" and ch = "[]"]
  have a1: "Collect_metrics (sampleEnv True (Inr Map.empty)) (fst (Build (sampleEnv False (Inr Map.empty)) (New None))) (sampleContext [samplePerf]) [] = collectPDH (sampleEnv True (Inr Map.empty)) (fst (Build (sampleEnv False (Inr Map.empty)) (New None))) []"
    using a on by simp
  have a2: "perfDataCollector (fst (Build (sampleEnv False (Inr Map.empty)) (New None))) = perfDataCollector (New None)"
    using a off by blast
  have a3: "(fst (Build (sampleEnv False (Inr Map.empty)) (New None))) = newDescs (Namespace (sampleEnv False (Inr Map.empty))) ((New None)\<lparr>perfDataCollector := perfDataCollector (fst (Build (sampleEnv False (Inr Map.empty)) (New None)))\<rparr>)"
    using a by blast
  have b1: "Collect_metrics (sampleEnv False (Inr Map.empty)) (fst (Build (sampleEnv True (Inr Map.empty)) (New None))) (sampleContext [samplePerf]) [] =
     collect (sampleEnv False (Inr Map.empty)) (fst (Build (sampleEnv True (Inr Map.empty)) (New None))) (sampleContext [samplePerf]) []"
    using b off by simp
  have b2: "perfDataCollector (fst (Build (sampleEnv True (Inr Map.empty)) (New None))) = Some \<lparr>objectName = ''DHCP Server'', counterNames = counters sampleIds, isOpen = True\<rparr>"
    using b on new by auto
  have b3: "(fst (Build (sampleEnv True (Inr Map.empty)) (New None))) = newDescs (Namespace (sampleEnv True (Inr Map.empty))) ((New None)\<lparr>perfDataCollector := perfDataCollector (fst (Build (sampleEnv True (Inr Map.empty)) (New None)))\<rparr>)"
    using b by blast
  from a1 a2 a3 b1 b2 b3 show ?thesis by blast
qed

subsection \<open>Close\<close>

text \<open>
  Claim C7, counterexample: \<open>Close\<close> does not release the handle. After a \<open>Build\<close>
  that opened the query handle of the sample source, \<open>Close\<close> returns nil and the
  collector still holds the handle, still open.
\<close>

theorem Close_leaves_handle_open_counterexample:
  "map_option isOpen (perfDataCollector (fst (Close (fst (Build (sampleEnv True (Inr Map.empty)) (New None)))))) = Some True \<and>
   snd (Close (fst (Build (sampleEnv True (Inr Map.empty)) (New None)))) = None"
  by (simp add: Close_def Build_sample_handle)

text \<open>
  Claim C7 as amended: after a \<open>Build\<close> that created the query handle, \<open>Close\<close>
  returns nil and leaves the collector unchanged, the handle included.
\<close>

theorem Close_keeps_handle:
  assumes "Build env c0 = (c, None)" and "PDHEnabled env"
  shows "\<exists>h. perfDataCollector c = Some h \<and> Close c = (c, None)"
  using Build_handle [OF assms] by (simp add: Close_def)

text \<open>Claim C7, witness: the sample collector built with PDH enabled.\<close>

theorem Close_keeps_handle_witness:
  "PDHEnabled (sampleEnv True (Inr Map.empty)) \<and>
   (\<exists>h. perfDataCollector (fst (Build (sampleEnv True (Inr Map.empty)) (New None))) = Some h \<and> Close (fst (Build (sampleEnv True (Inr Map.empty)) (New None))) = ((fst (Build (sampleEnv True (Inr Map.empty)) (New None))), None))"
proof -
  have on: "PDHEnabled (sampleEnv True (Inr Map.empty))"
    by (simp add: sampleEnv_def)
  show ?thesis
    using Close_keeps_handle [OF Build_sample on] on by blast
qed

subsection \<open>Build is deterministic\<close>

text \<open>
  Claim C8. Two successful runs of \<open>Build\<close> under the same namespace leave the same
  descriptors (fully-qualified name and help text) and the same catalog (descriptor and
  value type of every entry), whatever collectors they started from and whatever strategy
  each run selected; the descriptors are those of \<open>metricTable\<close>.
\<close>

theorem Build_deterministic:
  assumes "Build env1 c01 = (c1, None)" and "Build env2 c02 = (c2, None)"
    and "Namespace env1 = Namespace env2"
  shows "descriptors c1 = descriptors c2 \<and> catalog c1 = catalog c2 \<and>
         descriptors c1 =
           map (\<lambda>(n, h). Some (NewDesc (BuildFQName (Namespace env1) Name n) h [] [])) metricTable"
  using assms by (simp add: catalog_def Build_descriptors)

text \<open>
  Claim C8, witness: two fresh collectors of the sample source, one built with PDH
  disabled and one with PDH enabled.
\<close>

theorem Build_deterministic_witness:
  "Namespace (sampleEnv False (Inr Map.empty)) = Namespace (sampleEnv True (Inr Map.empty)) \<and>
   descriptors (fst (Build (sampleEnv False (Inr Map.empty)) (New None))) = descriptors (fst (Build (sampleEnv True (Inr Map.empty)) (New None))) \<and> catalog (fst (Build (sampleEnv False (Inr Map.empty)) (New None))) = catalog (fst (Build (sampleEnv True (Inr Map.empty)) (New None))) \<and>
   descriptors (fst (Build (sampleEnv False (Inr Map.empty)) (New None))) =
     map (\<lambda>(n, h). Some (NewDesc (BuildFQName (Namespace (sampleEnv False (Inr Map.empty))) Name n) h [] [])) metricTable"
proof -
  have 3: "Namespace (sampleEnv False (Inr Map.empty)) = Namespace (sampleEnv True (Inr Map.empty))"
    by (simp add: Namespace_sample)
  show ?thesis
    using Build_deterministic [OF Build_sample Build_sample 3] 3 by blast
qed

subsection \<open>Single values\<close>

text \<open>
  Claim C9. On the legacy path, when the snapshot decodes to exactly one record whose
  \<open>PacketsReceivedTotal\<close> is 42, \<open>collect\<close> on a built collector returns success and
  sends 25 samples, the first of which is the \<open>packets_received_total\<close> sample, of
  type counter and value 42.
\<close>

theorem collect_packets_received_42:
  assumes "Build env0 c0 = (c, None)"
    and "UnmarshalObject env (PerfObjects ctx ''DHCP Server'') = Inr [p]"
    and "PacketsReceivedTotal p = 42"
  shows "\<exists>ms. collect env c ctx ch = (Returned None, ch @ ms) \<and> length ms = 25 \<and>
           ms ! 0 =
             \<lparr>desc = NewDesc (BuildFQName (Namespace env0) Name ''packets_received_total'')
                      ''Total number of packets received by the DHCP server (PacketsReceivedTotal)'' [] [],
              valueType = CounterValue, val = 42\<rparr>"
proof -
  let ?ms = "metricsOf (Namespace env0) (legacyValues p)"
  have "collect env c ctx ch = (Returned None, ch @ ?ms)"
    using assms(1,2) by (rule collect_built)
  moreover have "length ?ms = 25"
    by (simp add: length_metricsOf length_legacyValues)
  moreover have "?ms ! 0 =
      \<lparr>desc = NewDesc (BuildFQName (Namespace env0) Name ''packets_received_total'')
               ''Total number of packets received by the DHCP server (PacketsReceivedTotal)'' [] [],
       valueType = CounterValue, val = 42\<rparr>"
    using assms(3)
    by (simp add: nth_metricsOf length_legacyValues)
       (simp add: metricTable_def kinds_def legacyValues_def)
  ultimately show ?thesis by blast
qed

text \<open>Claim C9, witness: the sample record, whose \<open>PacketsReceivedTotal\<close> is 42.\<close>

theorem collect_packets_received_42_witness:
  "PacketsReceivedTotal samplePerf = 42 \<and>
   (\<exists>ms. collect (sampleEnv False (Inr Map.empty)) (fst (Build (sampleEnv False (Inr Map.empty)) (New None))) (sampleContext [samplePerf]) [] = (Returned None, [] @ ms) \<and>
      length ms = 25 \<and>
      ms ! 0 =
        \<lparr>desc = NewDesc (BuildFQName (Namespace (sampleEnv False (Inr Map.empty))) Name ''packets_received_total'')
                 ''Total number of packets received by the DHCP server (PacketsReceivedTotal)'' [] [],
         valueType = CounterValue, val = 42\<rparr>)"
proof -
  have 3: "PacketsReceivedTotal samplePerf = 42"
    by (simp add: samplePerf_def)
  show ?thesis
    using collect_packets_received_42 [OF Build_sample Unmarshal_sample 3, where ch = "[]"] 3
    by simp
qed

text \<open>
  Claim C10. On the PDH path, when the empty instance is present in the result,
  \<open>collectPDH\<close> on a built collector returns success and sends all 25 samples, and for
  every counter identifier that is absent from the instance's map the sample of that
  metric, under its name and value type, has value 0.
\<close>

theorem collectPDH_missing_counter_is_zero:
  assumes "Build env0 c0 = (c, None)"
    and "perfDataCollector c = Some h" and "perfCollect env h = Inr pd"
    and "pd (EmptyInstance env) = Some data"
  shows "\<exists>ms. collectPDH env c ch = (Returned None, ch @ ms) \<and> length ms = 25 \<and>
           (\<forall>i<25. data (pdhKeys (ids env) ! i) = None \<longrightarrow>
              val (ms ! i) = 0 \<and>
              fqName (desc (ms ! i)) = BuildFQName (Namespace env0) Name (fst (metricTable ! i)) \<and>
              valueType (ms ! i) = kinds ! i)"
proof -
  let ?vs = "pdhValues (ids env) data"
  let ?ms = "metricsOf (Namespace env0) ?vs"
  have "collectPDH env c ch = (Returned None, ch @ ?ms)"
    using assms by (rule collectPDH_built)
  moreover have "length ?ms = 25"
    by (simp add: length_metricsOf length_pdhValues)
  moreover have "val (?ms ! i) = 0 \<and>
      fqName (desc (?ms ! i)) = BuildFQName (Namespace env0) Name (fst (metricTable ! i)) \<and>
      valueType (?ms ! i) = kinds ! i"
    if "i < 25" and "data (pdhKeys (ids env) ! i) = None" for i
  proof -
    have "length (pdhKeys (ids env)) = 25"
      by (simp add: pdhKeys_def)
    with that have "?vs ! i = 0"
      by (simp add: pdhValues_def index_def)
    with that(1) show ?thesis
      by (simp add: nth_metricsOf length_pdhValues NewDesc_def)
  qed
  ultimately show ?thesis by blast
qed

text \<open>
  Claim C10, witness: an instance that holds only the \<open>packetsReceivedTotal\<close> counter;
  the second counter sent, \<open>duplicatesDroppedTotal\<close>, is absent.
\<close>

theorem collectPDH_missing_counter_is_zero_witness:
  "perfCollect (sampleEnv True (Inr [''------'' \<mapsto> [packetsReceivedTotal_id sampleIds \<mapsto> \<lparr>FirstValue = 42, SecondValue = 0\<rparr>]])) \<lparr>objectName = ''DHCP Server'', counterNames = counters sampleIds, isOpen = True\<rparr> = Inr [''------'' \<mapsto> [packetsReceivedTotal_id sampleIds \<mapsto> \<lparr>FirstValue = 42, SecondValue = 0\<rparr>]] \<and>
   (\<exists>ms. collectPDH (sampleEnv True (Inr [''------'' \<mapsto> [packetsReceivedTotal_id sampleIds \<mapsto> \<lparr>FirstValue = 42, SecondValue = 0\<rparr>]])) (fst (Build (sampleEnv True (Inr [''------'' \<mapsto> [packetsReceivedTotal_id sampleIds \<mapsto> \<lparr>FirstValue = 42, SecondValue = 0\<rparr>]])) (New None))) [] = (Returned None, [] @ ms) \<and> length ms = 25 \<and>
      (\<forall>i<25. [packetsReceivedTotal_id sampleIds \<mapsto> \<lparr>FirstValue = 42, SecondValue = 0\<rparr>] (pdhKeys (ids (sampleEnv True (Inr [''------'' \<mapsto> [packetsReceivedTotal_id sampleIds \<mapsto> \<lparr>FirstValue = 42, SecondValue = 0\<rparr>]]))) ! i) = None \<longrightarrow>
         val (ms ! i) = 0 \<and>
         fqName (desc (ms ! i)) = BuildFQName (Namespace (sampleEnv True (Inr [''------'' \<mapsto> [packetsReceivedTotal_id sampleIds \<mapsto> \<lparr>FirstValue = 42, SecondValue = 0\<rparr>]]))) Name (fst (metricTable ! i)) \<and>
         valueType (ms ! i) = kinds ! i)) \<and>
   [packetsReceivedTotal_id sampleIds \<mapsto> \<lparr>FirstValue = 42, SecondValue = 0\<rparr>] (pdhKeys (ids (sampleEnv True (Inr [''------'' \<mapsto> [packetsReceivedTotal_id sampleIds \<mapsto> \<lparr>FirstValue = 42, SecondValue = 0\<rparr>]]))) ! 1) = None"
proof -
  have 3: "perfCollect (sampleEnv True (Inr [''------'' \<mapsto> [packetsReceivedTotal_id sampleIds \<mapsto> \<lparr>FirstValue = 42, SecondValue = 0\<rparr>]])) \<lparr>objectName = ''DHCP Server'', counterNames = counters sampleIds, isOpen = True\<rparr> = Inr [''------'' \<mapsto> [packetsReceivedTotal_id sampleIds \<mapsto> \<lparr>FirstValue = 42, SecondValue = 0\<rparr>]]"
    by (simp add: sampleEnv_def)
  have 4: "[''------'' \<mapsto> [packetsReceivedTotal_id sampleIds \<mapsto> \<lparr>FirstValue = 42, SecondValue = 0\<rparr>]] (EmptyInstance (sampleEnv True (Inr [''------'' \<mapsto> [packetsReceivedTotal_id sampleIds \<mapsto> \<lparr>FirstValue = 42, SecondValue = 0\<rparr>]]))) = Some [packetsReceivedTotal_id sampleIds \<mapsto> \<lparr>FirstValue = 42, SecondValue = 0\<rparr>]"
    by (simp add: sampleEnv_def)
  have 5: "[packetsReceivedTotal_id sampleIds \<mapsto> \<lparr>FirstValue = 42, SecondValue = 0\<rparr>] (pdhKeys (ids (sampleEnv True (Inr [''------'' \<mapsto> [packetsReceivedTotal_id sampleIds \<mapsto> \<lparr>FirstValue = 42, SecondValue = 0\<rparr>]]))) ! 1) = None"
    by (simp add: sampleEnv_def pdhKeys_def sampleIds_def)
  show ?thesis
    using collectPDH_missing_counter_is_zero [OF Build_sample Build_sample_handle 3 4, where ch = "[]"] 3 5
    by blast
qed

end
